theory Spec2Isabelle
  imports Main "HOL-Library.Word" "HOL-Library.Sublist"
begin

section \<open>Values exchanged by the relay\<close>

type_synonym bytes = "8 word list"

text \<open>
  A value as \<open>json.loads\<close> returns it. A Python dict is an association list read with
  \<open>map_of\<close>. Numbers are the integers; the relay only converts them with \<open>int\<close>.
\<close>

datatype json = JNull | JBool bool | JInt int | JStr string | JArr "json list"
  | JObj "(string \<times> json) list"

text \<open>Python truthiness, as used by \<open>if not payload\<close>, \<open>if text\<close> and \<open>x or y\<close>.\<close>

fun truthy :: "json \<Rightarrow> bool" where
  "truthy JNull = False"
| "truthy (JBool b) = b"
| "truthy (JInt n) = (n \<noteq> 0)"
| "truthy (JStr s) = (s \<noteq> [])"
| "truthy (JArr xs) = (xs \<noteq> [])"
| "truthy (JObj kvs) = (kvs \<noteq> [])"

text \<open>\<open>d.get(k)\<close> is \<open>None\<close> for a missing key; \<open>d.get(k, dflt)\<close> is \<open>dflt\<close>.\<close>

definition dict_get :: "(string \<times> json) list \<Rightarrow> string \<Rightarrow> json" where
  "dict_get d k = (case map_of d k of None \<Rightarrow> JNull | Some v \<Rightarrow> v)"

definition dict_get_default :: "(string \<times> json) list \<Rightarrow> string \<Rightarrow> json \<Rightarrow> json" where
  "dict_get_default d k dflt = (case map_of d k of None \<Rightarrow> dflt | Some v \<Rightarrow> v)"

section \<open>The audio queue (\<open>asyncio.Queue\<close>)\<close>

text \<open>
  \<open>asyncio.Queue(maxsize)\<close>: a FIFO of items; \<open>maxsize <= 0\<close> means unbounded.
  \<open>await put\<close> suspends the caller while the queue is full and \<open>await get\<close> while it is
  empty: both are modelled as \<open>None\<close>, the caller does not proceed.
\<close>

record 'a aqueue =
  maxsize :: int
  items :: "'a list"

definition Queue :: "int \<Rightarrow> 'a aqueue" where
  "Queue n = \<lparr>maxsize = n, items = []\<rparr>"

definition qsize :: "'a aqueue \<Rightarrow> nat" where
  "qsize q = length (items q)"

definition full :: "'a aqueue \<Rightarrow> bool" where
  "full q = (if maxsize q \<le> 0 then False else maxsize q \<le> int (qsize q))"

definition put :: "'a aqueue \<Rightarrow> 'a \<Rightarrow> 'a aqueue option" where
  "put q x = (if full q then None else Some (q\<lparr>items := items q @ [x]\<rparr>))"

definition get :: "'a aqueue \<Rightarrow> ('a \<times> 'a aqueue) option" where
  "get q = (case items q of [] \<Rightarrow> None | x # xs \<Rightarrow> Some (x, q\<lparr>items := xs\<rparr>))"

text \<open>A producer and a consumer acting on the queue in any order.\<close>

datatype 'a qop = Put 'a | Get

fun qapply :: "'a aqueue \<Rightarrow> 'a qop \<Rightarrow> 'a aqueue option" where
  "qapply q (Put x) = put q x"
| "qapply q Get = map_option snd (get q)"

text \<open>An operation that would suspend leaves the queue as it is.\<close>

fun qrun :: "'a aqueue \<Rightarrow> 'a qop list \<Rightarrow> 'a aqueue" where
  "qrun q [] = q"
| "qrun q (op # ops) = (case qapply q op of None \<Rightarrow> qrun q ops | Some q' \<Rightarrow> qrun q' ops)"

text \<open>Successive \<open>put\<close>s with no \<open>get\<close> between them; \<open>None\<close> when one of them suspends.\<close>

fun put_all :: "'a aqueue \<Rightarrow> 'a list \<Rightarrow> 'a aqueue option" where
  "put_all q [] = Some q"
| "put_all q (x # xs) = (case put q x of None \<Rightarrow> None | Some q' \<Rightarrow> put_all q' xs)"

text \<open>The per-connection queues of the two servers.\<close>

datatype item = Chunk bytes int | Sentinel

definition main_audio_queue :: "item aqueue" where
  "main_audio_queue = Queue 8"

definition server_audio_queue :: "bytes aqueue" where
  "server_audio_queue = Queue 0"

section \<open>Frames, library calls and remote calls\<close>

text \<open>A frame as the client transport delivers it: binary (\<open>bytes\<close>) or text (\<open>str\<close>).\<close>

datatype message = Bytes bytes | Str string

datatype exn = JSONDecodeError | UnicodeDecodeError | AttributeError | UnboundLocalError
  | Base64Error | ValueError | TypeError | ConnectionClosed | SessionError | ExceptionGroup

text \<open>
  The functions of the Python standard library that the relay calls are parameters of the
  model; \<open>Inl\<close> is the exception raised. \<open>json_loads\<close> is \<open>json.loads\<close> (it accepts
  \<open>str\<close> and \<open>bytes\<close>), \<open>b64decode\<close> is \<open>base64.b64decode\<close>, \<open>b64encode\<close> is
  \<open>base64.b64encode(...).decode("utf-8")\<close> and \<open>py_int\<close> is the builtin \<open>int\<close>.
\<close>

record pylib =
  json_loads :: "message \<Rightarrow> exn + json"
  b64decode :: "json \<Rightarrow> exn + bytes"
  b64encode :: "bytes \<Rightarrow> string"
  py_int :: "json \<Rightarrow> exn + int"

text \<open>
  Calls on the remote session. \<open>Send_realtime_audio chunk sr\<close> is
  \<open>send_realtime_input(audio=Blob(data=chunk, mime_type="audio/pcm;rate=sr;channels=1"))\<close>,
  \<open>Send_realtime_media data sr\<close> is
  \<open>send_realtime_input(media={"data": data, "mime_type": "audio/pcm;rate=sr"})\<close>,
  \<open>Send_end_of_turn\<close> is \<open>send(end_of_turn=True)\<close> and \<open>Send_input text\<close> is
  \<open>send(input=text, end_of_turn=True)\<close>.
\<close>

datatype remote_call = Send_realtime_audio bytes int | Send_realtime_media bytes int
  | Send_end_of_turn | Send_input json

text \<open>
  Whether a call on the remote session returns or raises is decided by the backend: a
  parameter \<open>ok\<close>, given the calls issued so far and the call.
\<close>

type_synonym session_oracle = "remote_call list \<Rightarrow> remote_call \<Rightarrow> bool"

datatype task_status = Running | Ended

section \<open>\<open>archive/main.py\<close>: reader and sender\<close>

text \<open>
  What one iteration of the loop of \<open>ws_reader\<close> asks for: nothing more (\<open>Continue\<close>),
  \<open>await audio_queue.put(item)\<close>, \<open>await session.send(input=text, end_of_turn=True)\<close>,
  \<open>websocket.close()\<close> followed by \<open>break\<close>, or an exception that leaves the loop.
\<close>

datatype reader_action = Continue | Enqueue item | SendText json | CloseBreak | Raise exn

text \<open>
  The body of the loop of \<open>ws_reader\<close>. \<open>csr\<close> is the variable \<open>client_sample_rate\<close>
  of \<open>ws_reader\<close>: the function assigns it without declaring it \<open>nonlocal\<close>, so it is a
  local of \<open>ws_reader\<close>, unbound (\<open>None\<close>) until the first assignment, and reading it
  unbound raises \<open>UnboundLocalError\<close>.
\<close>

definition ws_reader_body :: "pylib \<Rightarrow> int option \<Rightarrow> message \<Rightarrow> reader_action \<times> int option" where
  "ws_reader_body L csr message =
    (case json_loads L message of
       Inl e \<Rightarrow> if e = JSONDecodeError then (Continue, csr) else (Raise e, csr)
     | Inr data \<Rightarrow>
        (case data of
           JObj d \<Rightarrow>
            (let mtype = dict_get d ''type'' in
             if mtype = JStr ''audio'' then
               (let payload = dict_get_default d ''data'' (JStr []) in
                if \<not> truthy payload then (Continue, csr)
                else
                  (case b64decode L payload of
                     Inl e \<Rightarrow> (Raise e, csr)
                   | Inr audio_bytes \<Rightarrow>
                      (case (if truthy (dict_get d ''rate'') then py_int L (dict_get d ''rate'')
                             else (case csr of None \<Rightarrow> Inl UnboundLocalError
                                   | Some r \<Rightarrow> Inr r)) of
                         Inl e \<Rightarrow> (Raise e, csr)
                       | Inr sr \<Rightarrow> (Enqueue (Chunk audio_bytes sr), Some sr))))
             else if mtype = JStr ''end'' then (Enqueue Sentinel, csr)
             else if mtype = JStr ''text'' then
               (let text = dict_get_default d ''data'' (JStr []) in
                if truthy text then (SendText text, csr) else (Continue, csr))
             else if mtype = JStr ''close'' then (CloseBreak, csr)
             else (Continue, csr))
         | _ \<Rightarrow> (Raise AttributeError, csr)))"


text \<open>
  The body of the loop of \<open>audio_sender\<close> for a dequeued item: the calls issued so far,
  extended, and whether the loop goes on. A failing \<open>send_realtime_input\<close> is logged and the
  loop continues; a failing \<open>send(end_of_turn=True)\<close> leaves the loop.
\<close>

definition audio_sender_body :: "session_oracle \<Rightarrow> remote_call list \<Rightarrow> item
    \<Rightarrow> remote_call list \<times> task_status" where
  "audio_sender_body ok cs it =
    (case it of
       Sentinel \<Rightarrow> (cs @ [Send_end_of_turn], if ok cs Send_end_of_turn then Running else Ended)
     | Chunk chunk sr \<Rightarrow> (cs @ [Send_realtime_audio chunk sr], Running))"

text \<open>
  The state shared by the two tasks of one connection: the frames the transport still
  holds, the queue, the reader's sample rate, the calls issued on the remote session, and
  whether each loop is still running.
\<close>

record relay =
  pending :: "message list"
  queue :: "item aqueue"
  rate :: "int option"
  calls :: "remote_call list"
  reader :: task_status
  sender :: task_status
  ws_closed :: bool
  eof :: bool
  recv_done :: bool
  torn_down :: bool

text \<open>
  A connection just opened, with the frames \<open>ms\<close> on their way: the client has not
  disconnected (\<open>eof\<close>), the remote stream has not ended (\<open>recv_done\<close>) and the supervisor
  has not cancelled the tasks (\<open>torn_down\<close>).
\<close>

definition init_relay :: "message list \<Rightarrow> relay" where
  "init_relay ms = \<lparr>pending = ms, queue = main_audio_queue, rate = None, calls = [],
     reader = Running, sender = Running, ws_closed = False, eof = False, recv_done = False,
     torn_down = False\<rparr>"

text \<open>
  One iteration of \<open>ws_reader\<close>; \<open>None\<close> when the task cannot move: its loop has ended, no
  frame has arrived yet, or the queue is full and \<open>put\<close> suspends. Once the client has
  disconnected and every frame is read, \<open>async for\<close> is exhausted and the task ends.
\<close>

definition reader_step :: "pylib \<Rightarrow> session_oracle \<Rightarrow> relay \<Rightarrow> relay option" where
  "reader_step L ok s =
    (if reader s = Ended then None
     else case pending s of
       [] \<Rightarrow> if eof s then Some (s\<lparr>reader := Ended\<rparr>) else None
     | m # ms \<Rightarrow>
        (case ws_reader_body L (rate s) m of
           (Continue, r) \<Rightarrow> Some (s\<lparr>pending := ms, rate := r\<rparr>)
         | (Enqueue it, r) \<Rightarrow>
            (case put (queue s) it of
               None \<Rightarrow> None
             | Some q \<Rightarrow> Some (s\<lparr>pending := ms, queue := q, rate := r\<rparr>))
         | (SendText text, r) \<Rightarrow>
            Some (s\<lparr>pending := ms, rate := r, calls := calls s @ [Send_input text],
              reader := (if ok (calls s) (Send_input text) then Running else Ended)\<rparr>)
         | (CloseBreak, r) \<Rightarrow>
            Some (s\<lparr>pending := ms, rate := r, reader := Ended, ws_closed := True\<rparr>)
         | (Raise e, r) \<Rightarrow> Some (s\<lparr>pending := ms, rate := r, reader := Ended\<rparr>)))"

text \<open>One iteration of \<open>audio_sender\<close>; \<open>None\<close> when its loop has ended or the queue is empty.\<close>

definition sender_step :: "session_oracle \<Rightarrow> relay \<Rightarrow> relay option" where
  "sender_step ok s =
    (if sender s = Ended then None
     else case get (queue s) of
       None \<Rightarrow> None
     | Some (it, q) \<Rightarrow>
        (case audio_sender_body ok (calls s) it of
           (cs, st) \<Rightarrow> Some (s\<lparr>queue := q, calls := cs, sender := st\<rparr>)))"

text \<open>
  The supervisor at the end of \<open>process_audio\<close>: \<open>asyncio.wait\<close> returns once \<open>ws_task\<close> or
  \<open>recv_task\<close> is done; the tasks not yet done are cancelled and \<open>gather\<close> waits for them.
  A cancelled \<open>audio_sender\<close> leaves its loop without flushing the queue.
\<close>

definition supervisor_step :: "relay \<Rightarrow> relay option" where
  "supervisor_step s =
    (if torn_down s then None
     else if reader s = Ended \<or> recv_done s
       then Some (s\<lparr>reader := Ended, sender := Ended, torn_down := True\<rparr>)
       else None)"

text \<open>
  What can happen next on a connection: one of the tasks runs, the client disconnects, or
  the stream of the remote session ends (and \<open>model_receiver\<close> with it).
\<close>

datatype task = Reader | Sender | Supervisor | Client_disconnect | Remote_end

fun relay_step :: "pylib \<Rightarrow> session_oracle \<Rightarrow> task \<Rightarrow> relay \<Rightarrow> relay option" where
  "relay_step L ok Reader s = reader_step L ok s"
| "relay_step L ok Sender s = sender_step ok s"
| "relay_step L ok Supervisor s = supervisor_step s"
| "relay_step L ok Client_disconnect s = Some (s\<lparr>eof := True\<rparr>)"
| "relay_step L ok Remote_end s = Some (s\<lparr>recv_done := True\<rparr>)"

text \<open>
  A run of the connection under a schedule: the event loop picks what happens next; a
  task that cannot move stays suspended and the state is unchanged.
\<close>

fun run :: "pylib \<Rightarrow> session_oracle \<Rightarrow> relay \<Rightarrow> task list \<Rightarrow> relay" where
  "run L ok s [] = s"
| "run L ok s (t # ts) =
    (case relay_step L ok t s of None \<Rightarrow> run L ok s ts | Some s' \<Rightarrow> run L ok s' ts)"





section \<open>A stand-in for the library on the frames of the scenarios\<close>

text \<open>
  What \<open>json.loads\<close> returns on the frames used in the scenarios below; \<open>[1, 2]\<close> are the
  bytes \<open>01 02\<close>, whose Base64 text is \<open>AQI=\<close>, and \<open>AwQ=\<close> is the text of \<open>03 04\<close>.
  Four bytes \<open>80 81 82 83\<close> are not UTF-8, so decoding them fails before any JSON is read.
\<close>

definition scenario_frames :: "(message \<times> (exn + json)) list" where
  \<open>scenario_frames =
    [(Str ''{"type": "audio", "data": "AQI=", "rate": 16000}'',
        Inr (JObj [(''type'', JStr ''audio''), (''data'', JStr ''AQI=''), (''rate'', JInt 16000)])),
     (Str ''{"type": "audio", "data": "AwQ="}'',
        Inr (JObj [(''type'', JStr ''audio''), (''data'', JStr ''AwQ='')])),
     (Str ''{"type": "end"}'', Inr (JObj [(''type'', JStr ''end'')])),
     (Str ''{"type": "text", "data": "explain gravity"}'',
        Inr (JObj [(''type'', JStr ''text''), (''data'', JStr ''explain gravity'')])),
     (Str ''{"type": "ping"}'', Inr (JObj [(''type'', JStr ''ping'')])),
     (Str ''[]'', Inr (JArr [])),
     (Str ''{oops'', Inl JSONDecodeError),
     (Bytes [1, 2], Inl JSONDecodeError),
     (Bytes [128, 129, 130, 131], Inl UnicodeDecodeError)]\<close>

definition scenario_lib :: pylib where
  "scenario_lib =
    \<lparr>json_loads = (\<lambda>m. case map_of scenario_frames m of Some r \<Rightarrow> r | None \<Rightarrow> Inl JSONDecodeError),
     b64decode = (\<lambda>j. if j = JStr ''AQI='' then Inr [1, 2]
                      else if j = JStr ''AwQ='' then Inr [3, 4] else Inl Base64Error),
     b64encode = (\<lambda>b. if b = [1, 2] then ''AQI='' else if b = [3, 4] then ''AwQ='' else []),
     py_int = (\<lambda>j. case j of JInt n \<Rightarrow> Inr n | _ \<Rightarrow> Inl TypeError)\<rparr>"

definition always_ok :: session_oracle where
  "always_ok cs c = True"


section \<open>\<open>server.py\<close>: message handler and sender\<close>

datatype log_line = Log_end_signal | Log_text json | Log_invalid_json | Log_error exn

definition SEND_SAMPLE_RATE :: int where
  "SEND_SAMPLE_RATE = 16000"

text \<open>
  The body of the loop of \<open>handle_websocket_messages\<close>: the queue after the frame and the
  lines logged. A binary frame is put on the queue; a text frame is parsed and only logged.
  Every exception raised inside the body is caught there and logged. \<open>None\<close>: \<open>put\<close> suspends.
\<close>

definition handle_websocket_message :: "pylib \<Rightarrow> bytes aqueue \<Rightarrow> message
    \<Rightarrow> (bytes aqueue \<times> log_line list) option" where
  "handle_websocket_message L q message =
    (case message of
       Bytes b \<Rightarrow> map_option (\<lambda>q'. (q', [])) (put q b)
     | Str txt \<Rightarrow>
        (case json_loads L message of
           Inl e \<Rightarrow> Some (q, [if e = JSONDecodeError then Log_invalid_json else Log_error e])
         | Inr parsed \<Rightarrow>
            (case parsed of
               JObj d \<Rightarrow>
                 if dict_get d ''type'' = JStr ''end'' then Some (q, [Log_end_signal])
                 else if dict_get d ''type'' = JStr ''text'' then Some (q, [Log_text (dict_get d ''data'')])
                 else Some (q, [])
             | _ \<Rightarrow> Some (q, [Log_error AttributeError]))))"

record srelay =
  spending :: "message list"
  squeue :: "bytes aqueue"
  scalls :: "remote_call list"
  slog :: "log_line list"
  ssender :: task_status

definition init_srelay :: "message list \<Rightarrow> srelay" where
  "init_srelay ms = \<lparr>spending = ms, squeue = server_audio_queue, scalls = [], slog = [],
     ssender = Running\<rparr>"

text \<open>One iteration of \<open>handle_websocket_messages\<close>; \<open>None\<close> when the task cannot move.\<close>

definition handle_websocket_messages_step :: "pylib \<Rightarrow> srelay \<Rightarrow> srelay option" where
  "handle_websocket_messages_step L s =
    (case spending s of
       [] \<Rightarrow> None
     | m # ms \<Rightarrow>
        (case handle_websocket_message L (squeue s) m of
           None \<Rightarrow> None
         | Some (q, lg) \<Rightarrow> Some (s\<lparr>spending := ms, squeue := q, slog := slog s @ lg\<rparr>)))"

text \<open>
  One iteration of \<open>process_and_send_audio\<close>: the dequeued data is sent at the fixed rate
  \<open>SEND_SAMPLE_RATE\<close>; nothing catches a failing call, which ends the task.
\<close>

definition process_and_send_audio_step :: "session_oracle \<Rightarrow> srelay \<Rightarrow> srelay option" where
  "process_and_send_audio_step ok s =
    (if ssender s = Ended then None
     else case get (squeue s) of
       None \<Rightarrow> None
     | Some (b, q) \<Rightarrow>
         Some (s\<lparr>squeue := q, scalls := scalls s @ [Send_realtime_media b SEND_SAMPLE_RATE],
           ssender := (if ok (scalls s) (Send_realtime_media b SEND_SAMPLE_RATE)
                       then Running else Ended)\<rparr>))"

section \<open>Events of the remote session and frames written to the client\<close>

text \<open>
  A message of the remote session, with the attributes the receivers read. An absent
  attribute is \<open>None\<close>. \<open>output_transcription = Some t\<close> is a transcription object whose
  \<open>text\<close> is \<open>t\<close>; a part of the model turn is its inline data, if any.
\<close>

record server_content =
  interrupted :: "bool option"
  model_turn :: "bytes option list option"
  turn_complete :: "bool option"
  output_transcription :: "string option option"
  input_transcription :: "string option option"

record resumption_update =
  resumable :: "bool option"
  new_handle :: "string option"

record response =
  data :: "bytes option"
  server_content :: "server_content option"
  session_resumption_update :: "resumption_update option"
  go_away :: "string option"

text \<open>
  A frame written to the client: \<open>Json_frame d\<close> is \<open>json.dumps(d)\<close> sent as text,
  \<open>Binary_frame b\<close> is \<open>b\<close> sent as binary.
\<close>

datatype out_frame = Json_frame "(string \<times> json) list" | Binary_frame bytes

definition ready_frame :: out_frame where
  "ready_frame = Json_frame [(''type'', JStr ''ready'')]"

definition connected_frame :: "string \<Rightarrow> out_frame" where
  "connected_frame model = Json_frame [(''type'', JStr ''connected''), (''model'', JStr model)]"

definition audio_frame :: "string \<Rightarrow> out_frame" where
  "audio_frame b64 = Json_frame [(''type'', JStr ''audio''), (''data'', JStr b64)]"

definition text_frame :: "string \<Rightarrow> out_frame" where
  "text_frame t = Json_frame [(''type'', JStr ''text''), (''data'', JStr t)]"

definition turn_complete_frame :: out_frame where
  "turn_complete_frame = Json_frame [(''type'', JStr ''turn_complete'')]"

definition ready_for_input_frame :: out_frame where
  "ready_for_input_frame = Json_frame [(''type'', JStr ''ready_for_input'')]"

definition interrupted_frame :: out_frame where
  "interrupted_frame = Json_frame [(''type'', JStr ''interrupted''),
     (''data'', JStr ''Response interrupted by user input'')]"

definition session_id_frame :: "string \<Rightarrow> out_frame" where
  "session_id_frame h = Json_frame [(''type'', JStr ''session_id''), (''data'', JStr h)]"

text \<open>
  Whether a write to the client transport returns or raises is decided by the transport:
  a parameter \<open>wok\<close>, given the frames written so far and the frame. \<open>ws_send\<close> is
  \<open>await websocket.send(frame)\<close>: the frames written so far, and the exception if it raised.
\<close>

type_synonym ws_oracle = "out_frame list \<Rightarrow> out_frame \<Rightarrow> bool"

definition ws_send :: "ws_oracle \<Rightarrow> out_frame \<Rightarrow> out_frame list \<Rightarrow> out_frame list \<times> exn option" where
  "ws_send wok f out = (if wok out f then (out @ [f], None) else (out, Some ConnectionClosed))"

text \<open>Statements in sequence: an exception skips what follows.\<close>

definition and_then :: "'s \<times> exn option \<Rightarrow> ('s \<Rightarrow> 's \<times> exn option) \<Rightarrow> 's \<times> exn option" where
  "and_then r k = (case r of (s, None) \<Rightarrow> k s | (s, Some e) \<Rightarrow> (s, Some e))"

definition always_writes :: ws_oracle where
  "always_writes out f = True"

section \<open>\<open>archive/main.py\<close>: receiver\<close>

text \<open>
  The body of the loop of \<open>model_receiver\<close>. An exception while forwarding audio is
  caught and logged; any other exception leaves the loop.
\<close>

definition model_receiver_body :: "pylib \<Rightarrow> ws_oracle \<Rightarrow> response \<Rightarrow> out_frame list
    \<Rightarrow> out_frame list \<times> exn option" where
  "model_receiver_body L wok r out =
    and_then
      (case data r of
         None \<Rightarrow> (out, None)
       | Some d \<Rightarrow> (fst (ws_send wok (audio_frame (b64encode L d)) out), None))
      (\<lambda>out. case server_content r of
         None \<Rightarrow> (out, None)
       | Some sc \<Rightarrow>
          and_then
            (case output_transcription sc of
               Some (Some t) \<Rightarrow> if t \<noteq> [] then ws_send wok (text_frame t) out else (out, None)
             | _ \<Rightarrow> (out, None))
            (\<lambda>out. if turn_complete sc = Some True
               then and_then (ws_send wok turn_complete_frame out) (ws_send wok ready_for_input_frame)
               else (out, None)))"

text \<open>\<open>async for response in session.receive()\<close>, over the responses received.\<close>

fun model_receiver :: "pylib \<Rightarrow> ws_oracle \<Rightarrow> response list \<Rightarrow> out_frame list
    \<Rightarrow> out_frame list \<times> exn option" where
  "model_receiver L wok [] out = (out, None)"
| "model_receiver L wok (r # rs) out =
    and_then (model_receiver_body L wok r out) (model_receiver L wok rs)"

section \<open>\<open>server.py\<close>: receiver\<close>

text \<open>\<open>for part in server_content.model_turn.parts\<close>: inline data is sent as a binary frame.\<close>

fun send_parts :: "ws_oracle \<Rightarrow> bytes option list \<Rightarrow> out_frame list \<Rightarrow> out_frame list \<times> exn option" where
  "send_parts wok [] out = (out, None)"
| "send_parts wok (p # ps) out =
    and_then (case p of None \<Rightarrow> (out, None) | Some b \<Rightarrow> ws_send wok (Binary_frame b) out)
      (send_parts wok ps)"

text \<open>
  The body of the inner loop of \<open>receive_and_play\<close>, statement by statement; no exception
  is caught.
\<close>

definition receive_body :: "ws_oracle \<Rightarrow> response \<Rightarrow> out_frame list \<Rightarrow> out_frame list \<times> exn option" where
  "receive_body wok r out =
    and_then
      (case session_resumption_update r of
         None \<Rightarrow> (out, None)
       | Some u \<Rightarrow>
          (case new_handle u of
             Some h \<Rightarrow> if resumable u = Some True \<and> h \<noteq> [] then ws_send wok (session_id_frame h) out
                       else (out, None)
           | None \<Rightarrow> (out, None)))
      (\<lambda>out. and_then
        (case server_content r of
           None \<Rightarrow> (out, None)
         | Some sc \<Rightarrow> if interrupted sc = Some True then ws_send wok interrupted_frame out
                      else (out, None))
        (\<lambda>out. and_then
          (case server_content r of
             None \<Rightarrow> (out, None)
           | Some sc \<Rightarrow> (case model_turn sc of None \<Rightarrow> (out, None)
                         | Some parts \<Rightarrow> send_parts wok parts out))
          (\<lambda>out. and_then
            (case server_content r of
               None \<Rightarrow> (out, None)
             | Some sc \<Rightarrow> if turn_complete sc = Some True then ws_send wok turn_complete_frame out
                          else (out, None))
            (\<lambda>out. case server_content r of
               None \<Rightarrow> (out, None)
             | Some sc \<Rightarrow>
                (case output_transcription sc of
                   Some (Some t) \<Rightarrow> if t \<noteq> [] then ws_send wok (text_frame t) out else (out, None)
                 | _ \<Rightarrow> (out, None))))))"

text \<open>\<open>async for response in session.receive()\<close>, over the responses of one turn.\<close>

fun receive_turn :: "ws_oracle \<Rightarrow> response list \<Rightarrow> out_frame list \<Rightarrow> out_frame list \<times> exn option" where
  "receive_turn wok [] out = (out, None)"
| "receive_turn wok (r # rs) out = and_then (receive_body wok r out) (receive_turn wok rs)"

text \<open>
  The outer \<open>while True\<close> of \<open>receive_and_play\<close>, over the turns received so far: the loop
  itself never returns, the result is the state once these turns are consumed.
\<close>

fun receive_and_play :: "ws_oracle \<Rightarrow> response list list \<Rightarrow> out_frame list
    \<Rightarrow> out_frame list \<times> exn option" where
  "receive_and_play wok [] out = (out, None)"
| "receive_and_play wok (rs # turns) out =
    and_then (receive_turn wok rs out) (receive_and_play wok turns)"

text \<open>Whether the backend flags an interruption in a message.\<close>

definition is_interruption :: "response \<Rightarrow> bool" where
  "is_interruption r = (case server_content r of None \<Rightarrow> False | Some sc \<Rightarrow> interrupted sc = Some True)"

definition is_turn_complete :: "response \<Rightarrow> bool" where
  "is_turn_complete r = (case server_content r of None \<Rightarrow> False | Some sc \<Rightarrow> turn_complete sc = Some True)"

text \<open>Every \<open>turn_complete\<close> frame that has a successor is followed by \<open>ready_for_input\<close>.\<close>

fun paired :: "out_frame list \<Rightarrow> bool" where
  "paired [] = True"
| "paired [x] = True"
| "paired (x # y # zs) = ((x = turn_complete_frame \<longrightarrow> y = ready_for_input_frame) \<and> paired (y # zs))"

definition empty_content :: server_content where
  "empty_content = \<lparr>interrupted = None, model_turn = None, turn_complete = None,
     output_transcription = None, input_transcription = None\<rparr>"

definition content_response :: "server_content \<Rightarrow> response" where
  "content_response sc = \<lparr>data = None, server_content = Some sc,
     session_resumption_update = None, go_away = None\<rparr>"

text \<open>
  The state of the receiver of \<open>archive/main.py\<close> between two statements that write:
  the frames written are paired, and unless an exception was raised the last one is not a
  \<open>turn_complete\<close> still waiting for its \<open>ready_for_input\<close>.
\<close>

definition settled :: "out_frame list \<times> exn option \<Rightarrow> bool" where
  "settled r = (paired (fst r) \<and> (snd r = None \<longrightarrow> fst r = [] \<or> last (fst r) \<noteq> turn_complete_frame))"

text \<open>No \<open>ready_for_input\<close> frame among the frames written.\<close>

definition no_ready :: "out_frame list \<times> exn option \<Rightarrow> bool" where
  "no_ready r = (ready_for_input_frame \<notin> set (fst r))"

text \<open>The number of \<open>interrupted\<close> frames among the frames written.\<close>

definition interruptions :: "out_frame list \<Rightarrow> nat" where
  "interruptions out = length (filter (\<lambda>f. f = interrupted_frame) out)"

section \<open>Connection lifecycle: \<open>common.py\<close> and the two \<open>process_audio\<close>\<close>

text \<open>The three tasks of a connection, named as in \<open>archive/main.py\<close>.\<close>

datatype job = Ws_task | Send_task | Recv_task

text \<open>
  What happens on one connection, in order: a frame written to the client, the client
  stored in or deleted from \<open>active_clients\<close>, the remote session opened or closed, a task
  created, cancelled or finished, an error logged.
\<close>

datatype event = Wrote out_frame | Registered nat | Session_opened | Session_closed
  | Task_created job | Task_cancelled job | Task_finished job | Unregistered nat | Error_logged

record conn =
  active_clients :: "nat \<rightharpoonup> nat"
  events :: "event list"

text \<open>
  How far a coroutine got: it returned (\<open>Done None\<close>), it raised (\<open>Done (Some e)\<close>), or it
  is still suspended (\<open>Blocked\<close>).
\<close>

datatype status = Done "exn option" | Blocked

definition written :: "conn \<Rightarrow> out_frame list" where
  "written c = concat (map (\<lambda>ev. case ev of Wrote f \<Rightarrow> [f] | _ \<Rightarrow> []) (events c))"

definition emit :: "event list \<Rightarrow> conn \<Rightarrow> conn" where
  "emit evs c = c\<lparr>events := events c @ evs\<rparr>"

text \<open>\<open>await websocket.send(frame)\<close> on the connection.\<close>

definition conn_send :: "ws_oracle \<Rightarrow> out_frame \<Rightarrow> conn \<Rightarrow> conn \<times> exn option" where
  "conn_send wok f c =
    (if wok (written c) f then (emit [Wrote f] c, None) else (c, Some ConnectionClosed))"

text \<open>\<open>self.active_clients[client_id] = websocket\<close>.\<close>

definition register :: "nat \<Rightarrow> nat \<Rightarrow> conn \<Rightarrow> conn" where
  "register client_id websocket c =
    emit [Registered client_id] (c\<lparr>active_clients := (active_clients c)(client_id \<mapsto> websocket)\<rparr>)"

text \<open>\<open>if client_id in self.active_clients: del self.active_clients[client_id]\<close>.\<close>

definition unregister :: "nat \<Rightarrow> conn \<Rightarrow> conn" where
  "unregister client_id c =
    (if client_id \<in> dom (active_clients c)
     then emit [Unregistered client_id] (c\<lparr>active_clients := (active_clients c)(client_id := None)\<rparr>)
     else c)"

text \<open>
  \<open>handle_client\<close> of \<open>BaseWebSocketServer\<close>; \<open>process_audio\<close> is the method of the
  subclass. The first \<open>send\<close> is outside the \<open>try\<close>. \<open>ConnectionClosed\<close> is logged as
  information, any other exception as an error, and the \<open>finally\<close> block unregisters.
\<close>

definition handle_client :: "ws_oracle \<Rightarrow> (nat \<Rightarrow> nat \<Rightarrow> conn \<Rightarrow> conn \<times> status)
    \<Rightarrow> nat \<Rightarrow> nat \<Rightarrow> conn \<Rightarrow> conn \<times> status" where
  "handle_client wok process_audio client_id websocket c =
    (case conn_send wok ready_frame c of
       (c1, Some e) \<Rightarrow> (c1, Done (Some e))
     | (c1, None) \<Rightarrow>
        (case process_audio client_id websocket c1 of
           (c2, Blocked) \<Rightarrow> (c2, Blocked)
         | (c2, Done None) \<Rightarrow> (unregister client_id c2, Done None)
         | (c2, Done (Some e)) \<Rightarrow>
             (unregister client_id (if e = ConnectionClosed then c2 else emit [Error_logged] c2),
              Done None)))"

text \<open>
  What the surroundings of \<open>process_audio\<close> of \<open>archive/main.py\<close> decide: whether
  \<open>connect\<close> succeeds, the frames the receiver writes while the tasks run, and which tasks
  have finished when \<open>asyncio.wait(..., return_when=FIRST_COMPLETED)\<close> returns.
\<close>

record main_env =
  connect_ok :: bool
  activity :: "out_frame list"
  finished :: "job \<Rightarrow> bool"

definition MODEL :: string where
  "MODEL = ''gemini-live-2.5-flash-preview''"

text \<open>
  \<open>process_audio\<close> of \<open>archive/main.py\<close>. \<open>asyncio.wait\<close> returns once \<open>ws_task\<close> or
  \<open>recv_task\<close> has finished; until then the coroutine is suspended. Then every task not
  yet done is cancelled, \<open>gather\<close> returns when all three have finished, and leaving
  \<open>async with\<close> closes the session. A failing \<open>connect\<close> is logged by the \<open>except\<close> of
  \<open>process_audio\<close> itself; a failing write of \<open>connected\<close> is ignored.
\<close>

definition process_audio_main :: "ws_oracle \<Rightarrow> main_env \<Rightarrow> nat \<Rightarrow> nat \<Rightarrow> conn \<Rightarrow> conn \<times> status" where
  "process_audio_main wok env client_id websocket c =
    (let c1 = register client_id websocket c in
     if \<not> connect_ok env then (emit [Error_logged] c1, Done None)
     else
       (let c2 = emit [Session_opened] c1;
            c3 = fst (conn_send wok (connected_frame MODEL) c2);
            c4 = emit ([Task_created Ws_task, Task_created Send_task, Task_created Recv_task]
                   @ map Wrote (activity env)
                   @ map Task_finished (filter (finished env) [Ws_task, Send_task, Recv_task])) c3
        in if \<not> (finished env Ws_task \<or> finished env Recv_task) then (c4, Blocked)
           else
             (let pend = filter (\<lambda>t. \<not> finished env t) [Ws_task, Send_task, Recv_task] in
              (emit (map Task_cancelled pend @ map Task_finished pend @ [Session_closed]) c4,
               Done None))))"

text \<open>
  What the surroundings of \<open>process_audio\<close> of \<open>server.py\<close> decide: whether \<open>connect\<close>
  succeeds, the frames written while the tasks run, and the tasks that end by themselves,
  in order, each returning (\<open>None\<close>) or raising.
\<close>

record server_env =
  s_connect_ok :: bool
  s_activity :: "out_frame list"
  exits :: "(job \<times> exn option) list"

text \<open>
  \<open>async with asyncio.TaskGroup()\<close>: the group waits for all its tasks. A task that
  returns changes nothing for the others; the first task that raises makes the group
  cancel the tasks still running, wait for them and raise an exception group.
\<close>

fun task_group :: "(job \<times> exn option) list \<Rightarrow> job list \<Rightarrow> event list \<times> status" where
  "task_group [] running = ([], if running = [] then Done None else Blocked)"
| "task_group ((t, None) # xs) running =
    (if t \<in> set running
     then (case task_group xs (removeAll t running) of (evs, r) \<Rightarrow> (Task_finished t # evs, r))
     else task_group xs running)"
| "task_group ((t, Some e) # xs) running =
    (if t \<in> set running
     then (Task_finished t # map Task_cancelled (removeAll t running)
             @ map Task_finished (removeAll t running), Done (Some ExceptionGroup))
     else task_group xs running)"

text \<open>
  \<open>process_audio\<close> of \<open>server.py\<close>: nothing is caught here, so a failing \<open>connect\<close> and
  the exception group of the task group reach \<open>handle_client\<close>.
\<close>

definition process_audio_server :: "server_env \<Rightarrow> nat \<Rightarrow> nat \<Rightarrow> conn \<Rightarrow> conn \<times> status" where
  "process_audio_server env client_id websocket c =
    (let c1 = register client_id websocket c in
     if \<not> s_connect_ok env then (c1, Done (Some SessionError))
     else
       (let c2 = emit ([Session_opened, Task_created Ws_task, Task_created Send_task,
                   Task_created Recv_task] @ map Wrote (s_activity env)) c1
        in case task_group (exits env) [Ws_task, Send_task, Recv_task] of
             (evs, Blocked) \<Rightarrow> (emit evs c2, Blocked)
           | (evs, Done r) \<Rightarrow> (emit (evs @ [Session_closed]) c2, Done r)))"

text \<open>\<open>a\<close> occurs in \<open>xs\<close> before the first occurrence of \<open>b\<close>, which does occur.\<close>

definition precedes :: "'a \<Rightarrow> 'a \<Rightarrow> 'a list \<Rightarrow> bool" where
  "precedes a b xs = (b \<in> set xs \<and> a \<in> set (takeWhile (\<lambda>x. x \<noteq> b) xs))"

definition occurrences :: "'a \<Rightarrow> 'a list \<Rightarrow> nat" where
  "occurrences a xs = length (filter (\<lambda>x. x = a) xs)"

definition fresh_conn :: conn where
  "fresh_conn = \<lparr>active_clients = Map.empty, events = []\<rparr>"

section \<open>Properties of the queue\<close>

lemma maxsize_put: "put q x = Some q' \<Longrightarrow> maxsize q' = maxsize q"
  by (auto simp: put_def split: if_splits)

lemma maxsize_get: "get q = Some (x, q') \<Longrightarrow> maxsize q' = maxsize q"
  by (auto simp: get_def split: list.splits)

lemma maxsize_qapply: "qapply q op = Some q' \<Longrightarrow> maxsize q' = maxsize q"
  by (cases op) (auto simp: maxsize_put maxsize_get)

lemma qsize_put: "put q x = Some q' \<Longrightarrow> qsize q' = Suc (qsize q) \<and> \<not> full q"
  by (auto simp: put_def qsize_def split: if_splits)

lemma qsize_get: "get q = Some (x, q') \<Longrightarrow> Suc (qsize q') = qsize q"
  by (auto simp: get_def qsize_def split: list.splits)

lemma bounded_qapply:
  assumes "0 < maxsize q" and "int (qsize q) \<le> maxsize q" and "qapply q op = Some q'"
  shows "int (qsize q') \<le> maxsize q'"
proof (cases op)
  case (Put x)
  with assms have p: "put q x = Some q'" by simp
  from qsize_put [OF p] assms(1) have "int (qsize q) < maxsize q"
    by (simp add: full_def)
  with qsize_put [OF p] maxsize_put [OF p] show ?thesis by simp
next
  case Get
  with assms obtain x where g: "get q = Some (x, q')" by auto
  from qsize_get [OF g] maxsize_get [OF g] assms(2) show ?thesis by simp
qed

lemma bounded_qrun:
  "0 < maxsize q \<Longrightarrow> int (qsize q) \<le> maxsize q \<Longrightarrow>
   int (qsize (qrun q ops)) \<le> maxsize q \<and> maxsize (qrun q ops) = maxsize q"
proof (induction ops arbitrary: q)
  case Nil
  then show ?case by simp
next
  case (Cons op ops)
  show ?case
  proof (cases "qapply q op")
    case None
    with Cons show ?thesis by simp
  next
    case (Some q')
    from maxsize_qapply [OF Some] have m: "maxsize q' = maxsize q" .
    from bounded_qapply [OF Cons.prems Some] m Cons.prems(1)
    have "0 < maxsize q'" "int (qsize q') \<le> maxsize q'" by simp_all
    from Cons.IH [OF this] Some m show ?thesis by simp
  qed
qed

lemma put_all_fills:
  "int (qsize q + length xs) \<le> maxsize q \<Longrightarrow>
   put_all q xs = Some (q\<lparr>items := items q @ xs\<rparr>)"
proof (induction xs arbitrary: q)
  case Nil
  then show ?case by simp
next
  case (Cons x xs)
  let ?q = "q\<lparr>items := items q @ [x]\<rparr>"
  from Cons.prems have nf: "\<not> full q" by (simp add: full_def)
  then have p: "put q x = Some ?q" by (simp add: put_def)
  from Cons.prems have "int (qsize ?q + length xs) \<le> maxsize ?q"
    by (simp add: qsize_def)
  from Cons.IH [OF this] p show ?case by simp
qed

lemma put_all_unbounded:
  "maxsize q \<le> 0 \<Longrightarrow> put_all q xs = Some (q\<lparr>items := items q @ xs\<rparr>)"
proof (induction xs arbitrary: q)
  case Nil
  then show ?case by simp
next
  case (Cons x xs)
  let ?q = "q\<lparr>items := items q @ [x]\<rparr>"
  from Cons.prems have p: "put q x = Some ?q" by (simp add: put_def full_def)
  from Cons.prems have "maxsize ?q \<le> 0" by simp
  from Cons.IH [OF this] p show ?case by simp
qed

text \<open>
  C3 (as amended). The queue of \<open>archive/main.py\<close> is \<open>Queue 8\<close>; for every
  capacity \<open>K > 0\<close>: whatever puts and gets are run from the empty queue, its length never
  exceeds \<open>K\<close>; \<open>K\<close> successive puts succeed and the next one suspends the producer;
  after one get, one more put succeeds and the put after it suspends again.
\<close>

theorem bounded_queue_backpressure:
  assumes "0 < K" and "length xs = nat K"
  shows "int (qsize (qrun (Queue K) ops)) \<le> K
    \<and> (\<exists>q. put_all (Queue K) xs = Some q \<and> put q x = None
        \<and> (\<exists>y q1 q2. get q = Some (y, q1) \<and> put q1 x = Some q2 \<and> put q2 x' = None))"
proof -
  have b: "int (qsize (qrun (Queue K) ops)) \<le> K"
    using bounded_qrun [of "Queue K" ops] assms(1) by (simp add: Queue_def qsize_def)
  let ?q = "\<lparr>maxsize = K, items = xs\<rparr>"
  have f: "put_all (Queue K) xs = Some ?q"
    using put_all_fills [of "Queue K" xs] assms by (simp add: Queue_def qsize_def)
  have blocked: "put ?q x = None"
    using assms by (simp add: put_def full_def qsize_def)
  from assms obtain y ys where xs: "xs = y # ys" by (cases xs) auto
  let ?q1 = "\<lparr>maxsize = K, items = ys\<rparr>"
  let ?q2 = "\<lparr>maxsize = K, items = ys @ [x]\<rparr>"
  have g: "get ?q = Some (y, ?q1)" by (simp add: get_def xs)
  have p1: "put ?q1 x = Some ?q2"
    using assms xs by (simp add: put_def full_def qsize_def)
  have p2: "put ?q2 x' = None"
    using assms xs by (simp add: put_def full_def qsize_def)
  from f blocked g p1 p2 b show ?thesis by blast
qed

theorem bounded_queue_backpressure_witness:
  "int (qsize (qrun main_audio_queue [Put Sentinel, Get, Put Sentinel])) \<le> 8
    \<and> (\<exists>q. put_all main_audio_queue (replicate 8 Sentinel) = Some q \<and> put q Sentinel = None
        \<and> (\<exists>y q1 q2. get q = Some (y, q1) \<and> put q1 Sentinel = Some q2
              \<and> put q2 Sentinel = None))"
  using bounded_queue_backpressure [of 8 "replicate 8 Sentinel"
      "[Put Sentinel, Get, Put Sentinel]" Sentinel Sentinel]
  by (simp add: main_audio_queue_def)

text \<open>
  C3 fails as stated: the queue of \<open>server.py\<close> is created with no \<open>maxsize\<close>, so nine
  successive puts with no get all succeed and the queue holds nine items.
\<close>

theorem server_queue_unbounded_counterexample:
  "map_option qsize (put_all server_audio_queue (replicate 9 [])) = Some 9
    \<and> \<not> full (the (put_all server_audio_queue (replicate 9 [])))"
  by (simp add: server_audio_queue_def Queue_def put_all_unbounded qsize_def full_def)

section \<open>\<open>archive/main.py\<close>: ordering of forwarded audio and commit\<close>


























section \<open>Receivers: turn completion and interruption\<close>

lemma paired_snoc:
  "paired (xs @ [f]) \<longleftrightarrow> paired xs \<and> (xs \<noteq> [] \<and> last xs = turn_complete_frame \<longrightarrow> f = ready_for_input_frame)"
  by (induction xs rule: paired.induct) auto

lemma paired_snoc2:
  "paired (xs @ [a, b]) \<longleftrightarrow> paired (xs @ [a]) \<and> (a = turn_complete_frame \<longrightarrow> b = ready_for_input_frame)"
  using paired_snoc [of "xs @ [a]" b] by simp

lemma paired_nth:
  "paired xs \<Longrightarrow> Suc i < length xs \<Longrightarrow> xs ! i = turn_complete_frame \<Longrightarrow> xs ! Suc i = ready_for_input_frame"
proof (induction xs arbitrary: i rule: paired.induct)
  case (3 x y zs)
  then show ?case by (cases i) auto
qed auto

lemma frames_distinct [simp]:
  "audio_frame a \<noteq> turn_complete_frame" "text_frame t \<noteq> turn_complete_frame"
  "ready_for_input_frame \<noteq> turn_complete_frame"
  by (simp_all add: audio_frame_def text_frame_def turn_complete_frame_def ready_for_input_frame_def)

lemma settled_send:
  "settled (out, None) \<Longrightarrow> f \<noteq> turn_complete_frame \<Longrightarrow> settled (ws_send wok f out)"
  by (auto simp: settled_def ws_send_def paired_snoc)

lemma settled_complete:
  "settled (out, None) \<Longrightarrow>
   settled (and_then (ws_send wok turn_complete_frame out) (ws_send wok ready_for_input_frame))"
  by (auto simp: settled_def ws_send_def and_then_def paired_snoc paired_snoc2)

lemma settled_and_then:
  "settled r \<Longrightarrow> (\<And>out. settled (out, None) \<Longrightarrow> settled (k out)) \<Longrightarrow> settled (and_then r k)"
  by (cases r) (auto simp: and_then_def settled_def split: option.splits)

lemma settled_body:
  assumes "settled (out, None)"
  shows "settled (model_receiver_body L wok r out)"
  unfolding model_receiver_body_def
proof (rule settled_and_then)
  show "settled (case data r of None \<Rightarrow> (out, None)
       | Some d \<Rightarrow> (fst (ws_send wok (audio_frame (b64encode L d)) out), None))"
    using assms settled_send [of out "audio_frame (b64encode L (the (data r)))" wok]
    by (auto simp: settled_def ws_send_def split: option.splits)
next
  fix out' assume s: "settled (out', None)"
  show "settled (case server_content r of None \<Rightarrow> (out', None)
       | Some sc \<Rightarrow> and_then
            (case output_transcription sc of
               Some (Some t) \<Rightarrow> if t \<noteq> [] then ws_send wok (text_frame t) out' else (out', None)
             | _ \<Rightarrow> (out', None))
            (\<lambda>out. if turn_complete sc = Some True
               then and_then (ws_send wok turn_complete_frame out) (ws_send wok ready_for_input_frame)
               else (out, None)))"
  proof (cases "server_content r")
    case None
    with s show ?thesis by simp
  next
    case (Some sc)
    have "settled (and_then
            (case output_transcription sc of
               Some (Some t) \<Rightarrow> if t \<noteq> [] then ws_send wok (text_frame t) out' else (out', None)
             | _ \<Rightarrow> (out', None))
            (\<lambda>out. if turn_complete sc = Some True
               then and_then (ws_send wok turn_complete_frame out) (ws_send wok ready_for_input_frame)
               else (out, None)))"
    proof (rule settled_and_then)
      show "settled (case output_transcription sc of
               Some (Some t) \<Rightarrow> if t \<noteq> [] then ws_send wok (text_frame t) out' else (out', None)
             | _ \<Rightarrow> (out', None))"
        using s by (auto split: option.splits intro: settled_send)
    next
      fix out2 assume "settled (out2, None)"
      then show "settled (if turn_complete sc = Some True
               then and_then (ws_send wok turn_complete_frame out2) (ws_send wok ready_for_input_frame)
               else (out2, None))"
        by (auto intro: settled_complete)
    qed
    with Some show ?thesis by simp
  qed
qed

lemma settled_receiver: "settled (out, None) \<Longrightarrow> settled (model_receiver L wok rs out)"
proof (induction rs arbitrary: out)
  case Nil
  then show ?case by simp
next
  case (Cons r rs)
  show ?case
    unfolding model_receiver.simps
    by (rule settled_and_then [OF settled_body [OF Cons.prems]]) (rule Cons.IH)
qed

lemma and_then_None:
  "and_then r k = (out', None) \<Longrightarrow> \<exists>mid. r = (mid, None) \<and> k mid = (out', None)"
  by (cases r) (auto simp: and_then_def split: option.splits)

lemma frames_not_pair [simp]:
  "audio_frame a \<noteq> ready_for_input_frame" "text_frame t \<noteq> ready_for_input_frame"
  "session_id_frame h \<noteq> ready_for_input_frame" "interrupted_frame \<noteq> ready_for_input_frame"
  "Binary_frame b \<noteq> ready_for_input_frame" "turn_complete_frame \<noteq> ready_for_input_frame"
  by (simp_all add: audio_frame_def text_frame_def turn_complete_frame_def
      ready_for_input_frame_def session_id_frame_def interrupted_frame_def)

lemma pair_not_frames [simp]:
  "turn_complete_frame \<noteq> audio_frame a" "turn_complete_frame \<noteq> text_frame t"
  "ready_for_input_frame \<noteq> audio_frame a" "ready_for_input_frame \<noteq> text_frame t"
  by (simp_all add: audio_frame_def text_frame_def turn_complete_frame_def
      ready_for_input_frame_def)

text \<open>What the body writes before the pair: at most an audio frame and a text frame.\<close>

lemma receiver_body_emits:
  assumes "model_receiver_body L wok r out = (out', None)"
  shows "\<exists>mid. turn_complete_frame \<notin> set mid \<and> ready_for_input_frame \<notin> set mid
     \<and> out' = out @ mid @ (if is_turn_complete r then [turn_complete_frame, ready_for_input_frame] else [])"
proof -
  let ?a = "case data r of None \<Rightarrow> []
     | Some d \<Rightarrow> if wok out (audio_frame (b64encode L d)) then [audio_frame (b64encode L d)] else []"
  let ?t = "case server_content r of None \<Rightarrow> []
     | Some sc \<Rightarrow> (case output_transcription sc of
          Some (Some t) \<Rightarrow> if t \<noteq> [] then [text_frame t] else [] | _ \<Rightarrow> [])"
  have 1: "turn_complete_frame \<notin> set (?a @ ?t)"
    by (auto split: option.splits)
  have 2: "ready_for_input_frame \<notin> set (?a @ ?t)"
    by (auto split: option.splits)
  have 3: "out' = out @ (?a @ ?t)
      @ (if is_turn_complete r then [turn_complete_frame, ready_for_input_frame] else [])"
    using assms
    by (auto simp: model_receiver_body_def and_then_def ws_send_def is_turn_complete_def
        split: option.splits if_splits)
  from 1 2 3 show ?thesis by blast
qed

lemma receiver_counts:
  "model_receiver L wok rs out = (out', None) \<Longrightarrow>
   occurrences turn_complete_frame out' = occurrences turn_complete_frame out + length (filter is_turn_complete rs)
   \<and> occurrences ready_for_input_frame out'
       = occurrences ready_for_input_frame out + length (filter is_turn_complete rs)"
proof (induction rs arbitrary: out)
  case Nil
  then show ?case by simp
next
  case (Cons r rs)
  from and_then_None [OF Cons.prems [unfolded model_receiver.simps]] obtain mid where
    b: "model_receiver_body L wok r out = (mid, None)" and rest: "model_receiver L wok rs mid = (out', None)"
    by blast
  from receiver_body_emits [OF b] have
    "occurrences turn_complete_frame mid = occurrences turn_complete_frame out + (if is_turn_complete r then 1 else 0)"
    "occurrences ready_for_input_frame mid = occurrences ready_for_input_frame out + (if is_turn_complete r then 1 else 0)"
    by (auto simp: occurrences_def filter_empty_conv)
  with Cons.IH [OF rest] show ?case by simp
qed

lemma no_ready_send:
  "no_ready (out, None) \<Longrightarrow> f \<noteq> ready_for_input_frame \<Longrightarrow> no_ready (ws_send wok f out)"
  by (auto simp: no_ready_def ws_send_def)

lemma no_ready_and_then:
  "no_ready r \<Longrightarrow> (\<And>out. no_ready (out, None) \<Longrightarrow> no_ready (k out)) \<Longrightarrow> no_ready (and_then r k)"
  by (cases r) (auto simp: and_then_def no_ready_def split: option.splits)

lemma no_ready_parts: "no_ready (out, None) \<Longrightarrow> no_ready (send_parts wok ps out)"
proof (induction ps arbitrary: out)
  case Nil
  then show ?case by simp
next
  case (Cons p ps)
  show ?case
    unfolding send_parts.simps
  proof (rule no_ready_and_then)
    show "no_ready (case p of None \<Rightarrow> (out, None) | Some b \<Rightarrow> ws_send wok (Binary_frame b) out)"
      using Cons.prems by (auto split: option.splits intro: no_ready_send)
  qed (rule Cons.IH)
qed

lemma no_ready_body: "no_ready (out, None) \<Longrightarrow> no_ready (receive_body wok r out)"
  unfolding receive_body_def
  by (intro no_ready_and_then)
    (auto split: option.splits intro: no_ready_send no_ready_parts)

lemma no_ready_turn: "no_ready (out, None) \<Longrightarrow> no_ready (receive_turn wok rs out)"
proof (induction rs arbitrary: out)
  case Nil
  then show ?case by simp
next
  case (Cons r rs)
  show ?case
    unfolding receive_turn.simps
    by (rule no_ready_and_then [OF no_ready_body [OF Cons.prems]]) (rule Cons.IH)
qed

lemma no_ready_play: "no_ready (out, None) \<Longrightarrow> no_ready (receive_and_play wok turns out)"
proof (induction turns arbitrary: out)
  case Nil
  then show ?case by simp
next
  case (Cons rs turns)
  show ?case
    unfolding receive_and_play.simps
    by (rule no_ready_and_then [OF no_ready_turn [OF Cons.prems]]) (rule Cons.IH)
qed

lemma written_pairing:
  assumes "model_receiver L wok rs [] = (out, e)" and "i < length out"
    and "out ! i = turn_complete_frame"
  shows "(Suc i < length out \<and> out ! Suc i = ready_for_input_frame)
       \<or> (Suc i = length out \<and> e \<noteq> None)"
proof -
  have "settled (model_receiver L wok rs [])"
    by (rule settled_receiver) (simp add: settled_def)
  with assms(1) have p: "paired out" and l: "e = None \<longrightarrow> out = [] \<or> last out \<noteq> turn_complete_frame"
    by (simp_all add: settled_def)
  show ?thesis
  proof (cases "Suc i < length out")
    case True
    with paired_nth [OF p True assms(3)] show ?thesis by simp
  next
    case False
    with assms(2) have i: "Suc i = length out" by simp
    then have "last out = out ! i" "out \<noteq> []"
      by (cases out rule: rev_cases; auto simp: nth_append)+
    with l assms(3) i show ?thesis by auto
  qed
qed

text \<open>
  C2 (as amended). In \<open>archive/main.py\<close>: a message of the backend that completes the
  turn makes the receiver, when its writes succeed, write after the audio and transcript
  frames of that message a \<open>turn_complete\<close> frame followed immediately by a
  \<open>ready_for_input\<close> frame; when no write has raised there are as many \<open>turn_complete\<close>
  frames, and as many \<open>ready_for_input\<close> frames, as messages that complete a turn.
  Whichever writes fail, every \<open>turn_complete\<close> frame written is followed immediately by
  a \<open>ready_for_input\<close> frame, unless it is the last frame written and the receiver
  stopped on an exception. The receiver of \<open>server.py\<close> never writes a
  \<open>ready_for_input\<close> frame.
\<close>

theorem turn_complete_then_ready:
  assumes "model_receiver L wok rs [] = (out, e)"
  shows "(\<forall>i<length out. out ! i = turn_complete_frame \<longrightarrow>
            (Suc i < length out \<and> out ! Suc i = ready_for_input_frame)
          \<or> (Suc i = length out \<and> e \<noteq> None))
    \<and> (e = None \<longrightarrow>
          occurrences turn_complete_frame out = length (filter is_turn_complete rs)
        \<and> occurrences ready_for_input_frame out = length (filter is_turn_complete rs))
    \<and> (\<forall>r o1 o2. is_turn_complete r \<and> model_receiver_body L wok r o1 = (o2, None) \<longrightarrow>
          (\<exists>mid. turn_complete_frame \<notin> set mid \<and> ready_for_input_frame \<notin> set mid
             \<and> o2 = o1 @ mid @ [turn_complete_frame, ready_for_input_frame]))
    \<and> (\<forall>wok' turns. ready_for_input_frame \<notin> set (fst (receive_and_play wok' turns [])))"
proof -
  have 1: "\<forall>i<length out. out ! i = turn_complete_frame \<longrightarrow>
            (Suc i < length out \<and> out ! Suc i = ready_for_input_frame)
          \<or> (Suc i = length out \<and> e \<noteq> None)"
    using written_pairing [OF assms] by blast
  have 2: "e = None \<longrightarrow>
          occurrences turn_complete_frame out = length (filter is_turn_complete rs)
        \<and> occurrences ready_for_input_frame out = length (filter is_turn_complete rs)"
    using receiver_counts [of L wok rs "[]" out] assms by (simp add: occurrences_def)
  have 3: "\<forall>r o1 o2. is_turn_complete r \<and> model_receiver_body L wok r o1 = (o2, None) \<longrightarrow>
          (\<exists>mid. turn_complete_frame \<notin> set mid \<and> ready_for_input_frame \<notin> set mid
             \<and> o2 = o1 @ mid @ [turn_complete_frame, ready_for_input_frame])"
    using receiver_body_emits by fastforce
  have 4: "\<forall>wok' turns. ready_for_input_frame \<notin> set (fst (receive_and_play wok' turns []))"
    using no_ready_play [of "[]"] by (simp add: no_ready_def)
  from 1 2 3 4 show ?thesis by blast
qed

theorem turn_complete_then_ready_witness:
  "model_receiver scenario_lib always_writes
     [\<lparr>data = Some [1, 2], server_content = None, session_resumption_update = None, go_away = None\<rparr>,
      content_response (empty_content\<lparr>turn_complete := Some True\<rparr>)] []
     = ([audio_frame ''AQI='', turn_complete_frame, ready_for_input_frame], None)
   \<and> [audio_frame ''AQI='', turn_complete_frame, ready_for_input_frame] ! 1 = turn_complete_frame
   \<and> [audio_frame ''AQI='', turn_complete_frame, ready_for_input_frame] ! Suc 1 = ready_for_input_frame
   \<and> occurrences turn_complete_frame
        [audio_frame ''AQI='', turn_complete_frame, ready_for_input_frame] = 1"
proof -
  have r: "model_receiver scenario_lib always_writes
     [\<lparr>data = Some [1, 2], server_content = None, session_resumption_update = None, go_away = None\<rparr>,
      content_response (empty_content\<lparr>turn_complete := Some True\<rparr>)] []
     = ([audio_frame ''AQI='', turn_complete_frame, ready_for_input_frame], None)"
    by (simp add: model_receiver_body_def and_then_def ws_send_def always_writes_def
        scenario_lib_def content_response_def empty_content_def)
  have t: "is_turn_complete (content_response (empty_content\<lparr>turn_complete := Some True\<rparr>))"
    "\<not> is_turn_complete
       \<lparr>data = Some [1, 2], server_content = None, session_resumption_update = None, go_away = None\<rparr>"
    by (simp_all add: is_turn_complete_def content_response_def empty_content_def)
  from turn_complete_then_ready [OF r] have
    "([audio_frame ''AQI='', turn_complete_frame, ready_for_input_frame] ! 1 = turn_complete_frame \<longrightarrow>
        [audio_frame ''AQI='', turn_complete_frame, ready_for_input_frame] ! Suc 1 = ready_for_input_frame)
     \<and> occurrences turn_complete_frame
        [audio_frame ''AQI='', turn_complete_frame, ready_for_input_frame] = 1"
    using t by (auto simp del: nth_Cons_Suc)
  with r show ?thesis by simp
qed

text \<open>
  C2 fails as stated: on a message that completes the turn and carries an output
  transcription, the receiver of \<open>server.py\<close> writes \<open>turn_complete\<close> and then a
  \<open>text\<close> frame; it never writes \<open>ready_for_input\<close>.
\<close>

theorem server_turn_complete_counterexample:
  "receive_and_play always_writes
     [[content_response (empty_content\<lparr>turn_complete := Some True,
         output_transcription := Some (Some ''hi'')\<rparr>)]] []
   = ([turn_complete_frame, text_frame ''hi''], None)
   \<and> text_frame ''hi'' \<noteq> ready_for_input_frame"
  by (simp add: receive_body_def and_then_def ws_send_def always_writes_def
      content_response_def empty_content_def text_frame_def ready_for_input_frame_def)

lemma interruptions_send:
  "ws_send wok f out = (out', None) \<Longrightarrow>
   interruptions out' = interruptions out + (if f = interrupted_frame then 1 else 0)"
  by (auto simp: ws_send_def interruptions_def split: if_splits)

lemma other_frames [simp]:
  "session_id_frame h \<noteq> interrupted_frame" "Binary_frame b \<noteq> interrupted_frame"
  "turn_complete_frame \<noteq> interrupted_frame" "text_frame t \<noteq> interrupted_frame"
  by (simp_all add: session_id_frame_def interrupted_frame_def turn_complete_frame_def text_frame_def)

lemma interruptions_parts:
  "send_parts wok ps out = (out', None) \<Longrightarrow> interruptions out' = interruptions out"
proof (induction ps arbitrary: out)
  case Nil
  then show ?case by simp
next
  case (Cons p ps)
  from and_then_None [OF Cons.prems [unfolded send_parts.simps]] obtain mid where
    m: "(case p of None \<Rightarrow> (out, None) | Some b \<Rightarrow> ws_send wok (Binary_frame b) out) = (mid, None)"
    and r: "send_parts wok ps mid = (out', None)" by blast
  from m have "interruptions mid = interruptions out"
    by (auto split: option.splits dest: interruptions_send)
  with Cons.IH [OF r] show ?case by simp
qed

lemma interruptions_body:
  assumes "receive_body wok r out = (out', None)"
  shows "interruptions out' = interruptions out + (if is_interruption r then 1 else 0)"
proof -
  from and_then_None [OF assms [unfolded receive_body_def]] obtain o1 where
    a1: "(case session_resumption_update r of None \<Rightarrow> (out, None)
       | Some u \<Rightarrow> (case new_handle u of
             Some h \<Rightarrow> if resumable u = Some True \<and> h \<noteq> [] then ws_send wok (session_id_frame h) out
                       else (out, None)
           | None \<Rightarrow> (out, None))) = (o1, None)" and r1: "and_then
        (case server_content r of
           None \<Rightarrow> (o1, None)
         | Some sc \<Rightarrow> if interrupted sc = Some True then ws_send wok interrupted_frame o1
                      else (o1, None))
        (\<lambda>out. and_then
          (case server_content r of
             None \<Rightarrow> (out, None)
           | Some sc \<Rightarrow> (case model_turn sc of None \<Rightarrow> (out, None)
                         | Some parts \<Rightarrow> send_parts wok parts out))
          (\<lambda>out. and_then
            (case server_content r of
               None \<Rightarrow> (out, None)
             | Some sc \<Rightarrow> if turn_complete sc = Some True then ws_send wok turn_complete_frame out
                          else (out, None))
            (\<lambda>out. case server_content r of
               None \<Rightarrow> (out, None)
             | Some sc \<Rightarrow>
                (case output_transcription sc of
                   Some (Some t) \<Rightarrow> if t \<noteq> [] then ws_send wok (text_frame t) out else (out, None)
                 | _ \<Rightarrow> (out, None))))) = (out', None)" by blast
  from and_then_None [OF r1] obtain o2 where
    a2: "(case server_content r of
           None \<Rightarrow> (o1, None)
         | Some sc \<Rightarrow> if interrupted sc = Some True then ws_send wok interrupted_frame o1
                      else (o1, None)) = (o2, None)" and r2: "and_then
          (case server_content r of
             None \<Rightarrow> (o2, None)
           | Some sc \<Rightarrow> (case model_turn sc of None \<Rightarrow> (o2, None)
                         | Some parts \<Rightarrow> send_parts wok parts o2))
          (\<lambda>out. and_then
            (case server_content r of
               None \<Rightarrow> (out, None)
             | Some sc \<Rightarrow> if turn_complete sc = Some True then ws_send wok turn_complete_frame out
                          else (out, None))
            (\<lambda>out. case server_content r of
               None \<Rightarrow> (out, None)
             | Some sc \<Rightarrow>
                (case output_transcription sc of
                   Some (Some t) \<Rightarrow> if t \<noteq> [] then ws_send wok (text_frame t) out else (out, None)
                 | _ \<Rightarrow> (out, None)))) = (out', None)" by blast
  from and_then_None [OF r2] obtain o3 where
    a3: "(case server_content r of
             None \<Rightarrow> (o2, None)
           | Some sc \<Rightarrow> (case model_turn sc of None \<Rightarrow> (o2, None)
                         | Some parts \<Rightarrow> send_parts wok parts o2)) = (o3, None)" and r3: "and_then
            (case server_content r of
               None \<Rightarrow> (o3, None)
             | Some sc \<Rightarrow> if turn_complete sc = Some True then ws_send wok turn_complete_frame o3
                          else (o3, None))
            (\<lambda>out. case server_content r of
               None \<Rightarrow> (out, None)
             | Some sc \<Rightarrow>
                (case output_transcription sc of
                   Some (Some t) \<Rightarrow> if t \<noteq> [] then ws_send wok (text_frame t) out else (out, None)
                 | _ \<Rightarrow> (out, None))) = (out', None)" by blast
  from and_then_None [OF r3] obtain o4 where
    a4: "(case server_content r of
               None \<Rightarrow> (o3, None)
             | Some sc \<Rightarrow> if turn_complete sc = Some True then ws_send wok turn_complete_frame o3
                          else (o3, None)) = (o4, None)" and a5: "(case server_content r of
               None \<Rightarrow> (o4, None)
             | Some sc \<Rightarrow>
                (case output_transcription sc of
                   Some (Some t) \<Rightarrow> if t \<noteq> [] then ws_send wok (text_frame t) o4 else (o4, None)
                 | _ \<Rightarrow> (o4, None))) = (out', None)" by blast
  from a1 have e1: "interruptions o1 = interruptions out"
    by (auto split: option.splits if_splits dest: interruptions_send)
  from a2 have e2: "interruptions o2 = interruptions o1 + (if is_interruption r then 1 else 0)"
    by (auto simp: is_interruption_def split: option.splits if_splits dest: interruptions_send)
  from a3 have e3: "interruptions o3 = interruptions o2"
    by (auto split: option.splits dest: interruptions_parts)
  from a4 have e4: "interruptions o4 = interruptions o3"
    by (auto split: option.splits if_splits dest: interruptions_send)
  from a5 have e5: "interruptions out' = interruptions o4"
    by (auto split: option.splits if_splits dest: interruptions_send)
  from e1 e2 e3 e4 e5 show ?thesis by simp
qed

lemma interruptions_turn:
  "receive_turn wok rs out = (out', None) \<Longrightarrow>
   interruptions out' = interruptions out + length (filter is_interruption rs)"
proof (induction rs arbitrary: out)
  case Nil
  then show ?case by simp
next
  case (Cons r rs)
  from and_then_None [OF Cons.prems [unfolded receive_turn.simps]] obtain mid where
    "receive_body wok r out = (mid, None)" "receive_turn wok rs mid = (out', None)" by blast
  with interruptions_body [of wok r out mid] Cons.IH [of mid] show ?case by simp
qed

text \<open>
  C4 (as amended). In \<open>server.py\<close>, as long as no write to the client raises, the
  receiver has written exactly one \<open>interrupted\<close> frame for each message of the backend
  that flags an interruption, whatever audio or other messages came before it.
\<close>

theorem one_interrupted_frame_each:
  "receive_and_play wok turns out = (out', None) \<Longrightarrow>
   interruptions out' = interruptions out + length (filter is_interruption (concat turns))"
proof (induction turns arbitrary: out)
  case Nil
  then show ?case by simp
next
  case (Cons rs turns)
  from and_then_None [OF Cons.prems [unfolded receive_and_play.simps]] obtain mid where
    "receive_turn wok rs out = (mid, None)" "receive_and_play wok turns mid = (out', None)" by blast
  with interruptions_turn [of wok rs out mid] Cons.IH [of mid] show ?case by simp
qed

theorem one_interrupted_frame_each_witness:
  "receive_and_play always_writes
     [[content_response (empty_content\<lparr>model_turn := Some [Some [1, 2], Some [3, 4]]\<rparr>),
       content_response (empty_content\<lparr>interrupted := Some True\<rparr>)]] []
     = ([Binary_frame [1, 2], Binary_frame [3, 4], interrupted_frame], None)
   \<and> interruptions [Binary_frame [1, 2], Binary_frame [3, 4], interrupted_frame] = 1"
proof -
  have r: "receive_and_play always_writes
     [[content_response (empty_content\<lparr>model_turn := Some [Some [1, 2], Some [3, 4]]\<rparr>),
       content_response (empty_content\<lparr>interrupted := Some True\<rparr>)]] []
     = ([Binary_frame [1, 2], Binary_frame [3, 4], interrupted_frame], None)"
    by (simp add: receive_body_def and_then_def ws_send_def always_writes_def
        content_response_def empty_content_def)
  from one_interrupted_frame_each [OF r] r show ?thesis
    by (simp add: interruptions_def is_interruption_def content_response_def empty_content_def)
qed

text \<open>
  C4 fails as stated: the receiver of \<open>archive/main.py\<close> does not read the interruption
  flag; on a message that flags an interruption it writes nothing.
\<close>

theorem main_interruption_counterexample:
  "model_receiver scenario_lib always_writes
     [content_response (empty_content\<lparr>interrupted := Some True\<rparr>)] [] = ([], None)"
  by (simp add: model_receiver_body_def and_then_def content_response_def empty_content_def)

section \<open>Routers: text, malformed and binary frames\<close>

text \<open>
  A frame that \<open>json.loads\<close> rejects with \<open>JSONDecodeError\<close>, or an object whose type
  is none of the four known ones, is dropped by \<open>ws_reader\<close>: only the frame is consumed.
\<close>

lemma dropped_frame_unchanged:
  assumes "reader s = Running" and "pending s = m # ms"
    and "json_loads L m = Inl JSONDecodeError
       \<or> (\<exists>d. json_loads L m = Inr (JObj d)
             \<and> dict_get d ''type'' \<notin> {JStr ''audio'', JStr ''end'', JStr ''text'', JStr ''close''})"
  shows "reader_step L ok s = Some (s\<lparr>pending := ms\<rparr>)"
  using assms by (auto simp: reader_step_def ws_reader_body_def)

text \<open>
  In \<open>server.py\<close> a text frame never changes the queue, the calls or the sender.
\<close>

lemma server_dropped_frame:
  assumes "spending s = Str x # ms"
  shows "\<exists>s'. handle_websocket_messages_step L s = Some s' \<and> spending s' = ms
    \<and> squeue s' = squeue s \<and> scalls s' = scalls s \<and> ssender s' = ssender s"
  using assms
  by (auto simp: handle_websocket_messages_step_def handle_websocket_message_def
      split: sum.splits json.splits)

text \<open>
  C6 (as amended). On a \<open>text\<close> frame whose payload is non-empty, \<open>ws_reader\<close> of
  \<open>archive/main.py\<close> issues one \<open>send(input=text, end_of_turn=True)\<close> on the remote
  session and leaves the queue as it is: no item and no sentinel is enqueued. The handler
  of \<open>server.py\<close> only logs the text: queue and calls are unchanged.
\<close>

theorem text_frame_direct:
  assumes "json_loads L m = Inr (JObj d)" and "dict_get d ''type'' = JStr ''text''"
    and "truthy (dict_get_default d ''data'' (JStr []))"
  shows "(reader s = Running \<and> pending s = m # ms \<longrightarrow>
          reader_step L ok s =
            Some (s\<lparr>pending := ms,
              calls := calls s @ [Send_input (dict_get_default d ''data'' (JStr []))],
              reader := (if ok (calls s) (Send_input (dict_get_default d ''data'' (JStr [])))
                         then Running else Ended)\<rparr>))
    \<and> (m = Str x \<and> spending t = m # ms \<longrightarrow>
          handle_websocket_messages_step L t =
            Some (t\<lparr>spending := ms, slog := slog t @ [Log_text (dict_get d ''data'')]\<rparr>))"
  using assms
  by (auto simp: reader_step_def ws_reader_body_def handle_websocket_messages_step_def
      handle_websocket_message_def)

theorem text_frame_direct_witness:
  \<open>reader_step scenario_lib always_ok
     (init_relay [Str ''{"type": "text", "data": "explain gravity"}''])
   = Some ((init_relay []) \<lparr>calls := [Send_input (JStr ''explain gravity'')]\<rparr>)
   \<and> handle_websocket_messages_step scenario_lib
       (init_srelay [Str ''{"type": "text", "data": "explain gravity"}''])
     = Some ((init_srelay []) \<lparr>slog := [Log_text (JStr ''explain gravity'')]\<rparr>)\<close>
  using text_frame_direct [of scenario_lib \<open>Str ''{"type": "text", "data": "explain gravity"}''\<close>
      "[(''type'', JStr ''text''), (''data'', JStr ''explain gravity'')]"
      \<open>init_relay [Str ''{"type": "text", "data": "explain gravity"}'']\<close> "[]" always_ok
      \<open>''{"type": "text", "data": "explain gravity"}''\<close>
      \<open>init_srelay [Str ''{"type": "text", "data": "explain gravity"}'']\<close>]
  by (simp add: scenario_lib_def scenario_frames_def dict_get_def dict_get_default_def
      init_relay_def init_srelay_def always_ok_def)

text \<open>
  C6 fails as stated: in \<open>server.py\<close> the text frame of the scenario is logged and no
  call is issued on the remote session.
\<close>

theorem server_text_frame_counterexample:
  \<open>map_option scalls (handle_websocket_messages_step scenario_lib
      (init_srelay [Str ''{"type": "text", "data": "explain gravity"}''])) = Some []\<close>
  by (simp add: handle_websocket_messages_step_def handle_websocket_message_def init_srelay_def
      scenario_lib_def scenario_frames_def dict_get_def)

text \<open>
  C7 fails on \<open>archive/main.py\<close>: a text frame holding the JSON array \<open>[]\<close>, or a
  binary frame that is not UTF-8, ends the loop of \<open>ws_reader\<close>; the \<open>end\<close> frame that
  follows is never read, nothing is enqueued and no call is issued.
\<close>

theorem malformed_frame_ends_reader:
  \<open>run scenario_lib always_ok (init_relay [Str ''[]'', Str ''{"type": "end"}''])
      [Reader, Reader, Sender]
    = (init_relay [Str ''{"type": "end"}'']) \<lparr>reader := Ended\<rparr>
   \<and> run scenario_lib always_ok (init_relay [Bytes [128, 129, 130, 131], Str ''{"type": "end"}''])
      [Reader, Reader, Sender]
    = (init_relay [Str ''{"type": "end"}'']) \<lparr>reader := Ended\<rparr>\<close>
  by (simp add: reader_step_def sender_step_def ws_reader_body_def init_relay_def
      scenario_lib_def scenario_frames_def get_def main_audio_queue_def Queue_def)

text \<open>
  C8 (as amended). In \<open>server.py\<close> a binary frame is put on the (unbounded) queue as
  it is, with no rate attached, and \<open>process_and_send_audio\<close> forwards it at the fixed
  rate 16000. In \<open>archive/main.py\<close> a binary frame goes through \<open>json.loads\<close> like any
  other frame; when that raises \<open>JSONDecodeError\<close> the frame is dropped.
\<close>

theorem binary_frame_enqueued:
  "(spending s = Bytes b # ms \<and> maxsize (squeue s) \<le> 0 \<longrightarrow>
      handle_websocket_messages_step L s =
        Some (s\<lparr>spending := ms, squeue := (squeue s)\<lparr>items := items (squeue s) @ [b]\<rparr>\<rparr>))
   \<and> (ssender t = Running \<and> items (squeue t) = b # rest \<longrightarrow>
      process_and_send_audio_step ok t =
        Some (t\<lparr>squeue := (squeue t)\<lparr>items := rest\<rparr>,
          scalls := scalls t @ [Send_realtime_media b 16000],
          ssender := (if ok (scalls t) (Send_realtime_media b 16000) then Running else Ended)\<rparr>))
   \<and> (reader u = Running \<and> pending u = Bytes b # ms \<and> json_loads L (Bytes b) = Inl JSONDecodeError \<longrightarrow>
      reader_step L ok u = Some (u\<lparr>pending := ms\<rparr>))"
  by (auto simp: handle_websocket_messages_step_def handle_websocket_message_def put_def full_def
      process_and_send_audio_step_def get_def SEND_SAMPLE_RATE_def reader_step_def
      ws_reader_body_def)

theorem binary_frame_enqueued_witness:
  "handle_websocket_messages_step scenario_lib (init_srelay [Bytes [1, 2]])
     = Some ((init_srelay []) \<lparr>squeue := \<lparr>maxsize = 0, items = [[1, 2]]\<rparr>\<rparr>)
   \<and> process_and_send_audio_step always_ok
       ((init_srelay []) \<lparr>squeue := \<lparr>maxsize = 0, items = [[1, 2]]\<rparr>\<rparr>)
     = Some ((init_srelay []) \<lparr>scalls := [Send_realtime_media [1, 2] 16000]\<rparr>)
   \<and> reader_step scenario_lib always_ok (init_relay [Bytes [1, 2]]) = Some (init_relay [])"
  using binary_frame_enqueued [where s = "init_srelay [Bytes [1, 2]]" and b = "[1, 2]"
      and ms = "[]" and rest = "[]" and L = scenario_lib and ok = always_ok
      and t = "(init_srelay []) \<lparr>squeue := \<lparr>maxsize = 0, items = [[1, 2]]\<rparr>\<rparr>"
      and u = "init_relay [Bytes [1, 2]]"]
  by (simp add: init_srelay_def init_relay_def server_audio_queue_def Queue_def always_ok_def
      scenario_lib_def scenario_frames_def)

text \<open>
  C8 fails as stated: \<open>ws_reader\<close> of \<open>archive/main.py\<close> drops the binary frame
  \<open>01 02\<close>; the queue stays empty.
\<close>

theorem main_binary_frame_counterexample:
  "reader_step scenario_lib always_ok (init_relay [Bytes [1, 2]]) = Some (init_relay [])"
  by (simp add: reader_step_def ws_reader_body_def init_relay_def scenario_lib_def
      scenario_frames_def)

section \<open>Connection lifecycle: first frame, teardown\<close>

lemma written_emit: "written (emit evs c) = written c @ concat (map (\<lambda>ev. case ev of Wrote f \<Rightarrow> [f] | _ \<Rightarrow> []) evs)"
  by (simp add: written_def emit_def)

lemma unregister_absent: "k \<notin> dom (active_clients d) \<Longrightarrow> unregister k d = d"
  by (simp add: unregister_def)

lemma unregister_idem: "unregister k (unregister k d) = unregister k d"
  by (simp add: unregister_def emit_def)

lemma events_main:
  "\<exists>evs. events (fst (process_audio_main wok env cid ws c)) = events c @ Registered cid # evs"
  by (simp add: process_audio_main_def Let_def register_def emit_def conn_send_def)

lemma events_server:
  "\<exists>evs. events (fst (process_audio_server env cid ws c)) = events c @ Registered cid # evs"
  by (auto simp: process_audio_server_def Let_def register_def emit_def split: prod.splits status.splits)

lemma events_handle_client:
  assumes "\<And>c. \<exists>evs. events (fst (pa cid ws c)) = events c @ Registered cid # evs"
  shows "(wok (written c) ready_frame \<longrightarrow>
           (\<exists>rest. events (fst (handle_client wok pa cid ws c))
               = events c @ Wrote ready_frame # Registered cid # rest))
       \<and> (\<not> wok (written c) ready_frame \<longrightarrow> events (fst (handle_client wok pa cid ws c)) = events c)"
proof (cases "wok (written c) ready_frame")
  case False
  then show ?thesis by (simp add: handle_client_def conn_send_def)
next
  case True
  let ?c1 = "emit [Wrote ready_frame] c"
  from assms [of ?c1] obtain evs where
    e: "events (fst (pa cid ws ?c1)) = events c @ Wrote ready_frame # Registered cid # evs"
    by (auto simp: emit_def)
  obtain c2 st where p: "pa cid ws ?c1 = (c2, st)" by (cases "pa cid ws ?c1")
  with e have e2: "events c2 = events c @ Wrote ready_frame # Registered cid # evs" by simp
  have "\<exists>more. events (fst (handle_client wok pa cid ws c)) = events c2 @ more"
    using True p
    by (auto simp: handle_client_def conn_send_def unregister_def emit_def
        split: status.splits option.splits)
  with e2 True show ?thesis by auto
qed

lemma written_Cons:
  "events c = Wrote f # rest \<Longrightarrow> \<exists>fs. written c = f # fs"
  by (simp add: written_def)

text \<open>
  C10. On a new connection served by \<open>handle_client\<close>, with either \<open>process_audio\<close>:
  if the first write fails nothing at all happens on the connection; otherwise the first
  event of the connection is the write of \<open>{"type": "ready"}\<close>, so it is the first frame
  written and it comes before the remote session is opened. When \<open>connect\<close> then fails
  in \<open>archive/main.py\<close>, \<open>ready\<close> is the only frame the client has received.
\<close>

theorem ready_frame_first:
  assumes "events c = []"
    and "pa = process_audio_main wok menv \<or> pa = process_audio_server senv"
  shows "(\<not> wok [] ready_frame \<longrightarrow> events (fst (handle_client wok pa cid ws c)) = [])
    \<and> (wok [] ready_frame \<longrightarrow>
          (\<exists>rest. events (fst (handle_client wok pa cid ws c)) = Wrote ready_frame # rest)
          \<and> (\<exists>fs. written (fst (handle_client wok pa cid ws c)) = ready_frame # fs))
    \<and> (Session_opened \<in> set (events (fst (handle_client wok pa cid ws c))) \<longrightarrow>
          precedes (Wrote ready_frame) Session_opened (events (fst (handle_client wok pa cid ws c))))
    \<and> (wok [] ready_frame \<and> \<not> connect_ok menv \<longrightarrow>
          written (fst (handle_client wok (process_audio_main wok menv) cid ws c)) = [ready_frame])"
proof -
  let ?c' = "fst (handle_client wok pa cid ws c)"
  have w: "written c = []" using assms(1) by (simp add: written_def)
  have ap: "\<And>c. \<exists>evs. events (fst (pa cid ws c)) = events c @ Registered cid # evs"
    using assms(2) events_main events_server by metis
  note h = events_handle_client [of pa cid ws wok c, OF ap, unfolded w assms(1), simplified]
  have a: "\<not> wok [] ready_frame \<longrightarrow> events ?c' = []" using h by simp
  have b: "wok [] ready_frame \<longrightarrow> (\<exists>rest. events ?c' = Wrote ready_frame # rest)"
    using h by auto
  have b': "wok [] ready_frame \<longrightarrow> (\<exists>fs. written ?c' = ready_frame # fs)"
    using b written_Cons by blast
  have d: "Session_opened \<in> set (events ?c') \<longrightarrow>
      precedes (Wrote ready_frame) Session_opened (events ?c')"
  proof
    assume s: "Session_opened \<in> set (events ?c')"
    with a have "wok [] ready_frame" by auto
    with b obtain rest where "events ?c' = Wrote ready_frame # rest" by blast
    with s show "precedes (Wrote ready_frame) Session_opened (events ?c')"
      by (simp add: precedes_def)
  qed
  have e: "wok [] ready_frame \<and> \<not> connect_ok menv \<longrightarrow>
      written (fst (handle_client wok (process_audio_main wok menv) cid ws c)) = [ready_frame]"
    using assms(1)
    by (simp add: handle_client_def conn_send_def written_def process_audio_main_def
        register_def unregister_def emit_def)
  from a b b' d e show ?thesis by blast
qed

theorem ready_frame_first_witness:
  "events (fst (handle_client always_writes
      (process_audio_main always_writes
         \<lparr>connect_ok = False, activity = [], finished = (\<lambda>t. False)\<rparr>) 7 7 fresh_conn))
   = [Wrote ready_frame, Registered 7, Error_logged, Unregistered 7]"
  using ready_frame_first [of fresh_conn "process_audio_main always_writes
         \<lparr>connect_ok = False, activity = [], finished = (\<lambda>t. False)\<rparr>" always_writes
         "\<lparr>connect_ok = False, activity = [], finished = (\<lambda>t. False)\<rparr>"
         "\<lparr>s_connect_ok = False, s_activity = [], exits = []\<rparr>" 7 7]
  by (simp add: fresh_conn_def handle_client_def conn_send_def written_def process_audio_main_def
        register_def unregister_def emit_def always_writes_def)

text \<open>
  C5. Once \<open>ws_task\<close> or \<open>recv_task\<close> or both have finished, \<open>handle_client\<close> with
  \<open>process_audio\<close> of \<open>archive/main.py\<close> has deleted the client from \<open>active_clients\<close>
  exactly once and closed the remote session exactly once; the client is no longer
  registered, and unregistering an identifier that is absent changes nothing.
\<close>

theorem teardown_exactly_once:
  assumes "events c = []" and "wok [] ready_frame" and "connect_ok env"
    and "finished env Ws_task \<or> finished env Recv_task"
  shows "occurrences (Unregistered cid) (events (fst (handle_client wok (process_audio_main wok env) cid ws c))) = 1
    \<and> occurrences Session_closed (events (fst (handle_client wok (process_audio_main wok env) cid ws c))) = 1
    \<and> cid \<notin> dom (active_clients (fst (handle_client wok (process_audio_main wok env) cid ws c)))
    \<and> unregister cid (fst (handle_client wok (process_audio_main wok env) cid ws c))
        = fst (handle_client wok (process_audio_main wok env) cid ws c)
    \<and> (\<forall>k d. k \<notin> dom (active_clients d) \<longrightarrow> unregister k d = d)"
  using assms
  by (auto simp: handle_client_def conn_send_def written_def process_audio_main_def Let_def
        register_def unregister_def emit_def occurrences_def filter_map comp_def)

theorem teardown_exactly_once_witness:
  "events (fst (handle_client always_writes
      (process_audio_main always_writes
         \<lparr>connect_ok = True, activity = [], finished = (\<lambda>t. t \<noteq> Send_task)\<rparr>) 7 7 fresh_conn))
   = [Wrote ready_frame, Registered 7, Session_opened, Wrote (connected_frame MODEL),
      Task_created Ws_task, Task_created Send_task, Task_created Recv_task,
      Task_finished Ws_task, Task_finished Recv_task,
      Task_cancelled Send_task, Task_finished Send_task, Session_closed, Unregistered 7]
   \<and> occurrences (Unregistered 7) (events (fst (handle_client always_writes
      (process_audio_main always_writes
         \<lparr>connect_ok = True, activity = [], finished = (\<lambda>t. t \<noteq> Send_task)\<rparr>) 7 7 fresh_conn))) = 1"
  using teardown_exactly_once [of fresh_conn always_writes
      "\<lparr>connect_ok = True, activity = [], finished = (\<lambda>t. t \<noteq> Send_task)\<rparr>" 7 7]
  by (simp add: fresh_conn_def handle_client_def conn_send_def written_def process_audio_main_def
        register_def unregister_def emit_def always_writes_def)

lemma precedesI:
  "xs = pre @ b # post \<Longrightarrow> b \<notin> set pre \<Longrightarrow> a \<in> set pre \<Longrightarrow> precedes a b xs"
  by (auto simp: precedes_def takeWhile_append)

lemma main_events:
  assumes "events c = []" and "wok [] ready_frame" and "connect_ok env"
    and "finished env Ws_task \<or> finished env Recv_task"
  shows "handle_client wok (process_audio_main wok env) cid ws c =
    (\<lparr>active_clients = (active_clients c)(cid := None),
      events = ([Wrote ready_frame, Registered cid, Session_opened]
        @ (if wok [ready_frame] (connected_frame MODEL) then [Wrote (connected_frame MODEL)] else [])
        @ [Task_created Ws_task, Task_created Send_task, Task_created Recv_task]
        @ map Wrote (activity env))
        @ map Task_finished (filter (finished env) [Ws_task, Send_task, Recv_task])
        @ map Task_cancelled (filter (\<lambda>t. \<not> finished env t) [Ws_task, Send_task, Recv_task])
        @ map Task_finished (filter (\<lambda>t. \<not> finished env t) [Ws_task, Send_task, Recv_task])
        @ [Session_closed, Unregistered cid]\<rparr>, Done None)"
  using assms
  by (simp add: handle_client_def conn_send_def written_def process_audio_main_def Let_def
        register_def unregister_def emit_def)

text \<open>
  C9 (as amended). In \<open>archive/main.py\<close>, once \<open>ws_task\<close> or \<open>recv_task\<close> has finished:
  every task still running is cancelled before it finishes, no finished task is cancelled,
  all three tasks have finished before the session is closed, the session is closed before
  the client is unregistered, \<open>handle_client\<close> returns normally and no error is logged.
\<close>

theorem supervised_teardown:
  assumes "events c = []" and "wok [] ready_frame" and "connect_ok env"
    and "finished env Ws_task \<or> finished env Recv_task"
    and "handle_client wok (process_audio_main wok env) cid ws c = (c', st)"
  shows "st = Done None \<and> Error_logged \<notin> set (events c')
    \<and> (\<forall>t. precedes (Task_finished t) Session_closed (events c'))
    \<and> (\<forall>t. \<not> finished env t \<longrightarrow> precedes (Task_cancelled t) (Task_finished t) (events c'))
    \<and> (\<forall>t. finished env t \<longrightarrow> Task_cancelled t \<notin> set (events c'))
    \<and> precedes Session_closed (Unregistered cid) (events c')"
proof -
  define pre where "pre = [Wrote ready_frame, Registered cid, Session_opened]
        @ (if wok [ready_frame] (connected_frame MODEL) then [Wrote (connected_frame MODEL)] else [])
        @ [Task_created Ws_task, Task_created Send_task, Task_created Recv_task]
        @ map Wrote (activity env)"
  define fin where "fin = filter (finished env) [Ws_task, Send_task, Recv_task]"
  define pend where "pend = filter (\<lambda>t. \<not> finished env t) [Ws_task, Send_task, Recv_task]"
  from main_events [of c wok env cid ws, OF assms(1-4)] assms(5) have
    st: "st = Done None" and
    ev: "events c' = pre @ map Task_finished fin @ map Task_cancelled pend
          @ map Task_finished pend @ [Session_closed, Unregistered cid]"
    unfolding pre_def fin_def pend_def by auto
  have pre: "\<And>t. Task_finished t \<notin> set pre" "\<And>t. Task_cancelled t \<notin> set pre"
    "Session_closed \<notin> set pre" "Unregistered cid \<notin> set pre" "Error_logged \<notin> set pre"
    unfolding pre_def by auto
  have fin: "\<And>t. t \<in> set fin \<longleftrightarrow> finished env t"
    unfolding fin_def by (case_tac t) auto
  have pend: "\<And>t. t \<in> set pend \<longleftrightarrow> \<not> finished env t"
    unfolding pend_def by (case_tac t) auto
  have 1: "Error_logged \<notin> set (events c')" using ev pre by auto
  have 2: "precedes (Task_finished t) Session_closed (events c')" for t
  proof (rule precedesI)
    show "events c' = (pre @ map Task_finished fin @ map Task_cancelled pend
          @ map Task_finished pend) @ Session_closed # [Unregistered cid]"
      using ev by simp
    show "Session_closed \<notin> set (pre @ map Task_finished fin @ map Task_cancelled pend
          @ map Task_finished pend)" using pre(3) by auto
    show "Task_finished t \<in> set (pre @ map Task_finished fin @ map Task_cancelled pend
          @ map Task_finished pend)" using fin [of t] pend [of t] by auto
  qed
  have 3: "precedes (Task_cancelled t) (Task_finished t) (events c')" if nf: "\<not> finished env t" for t
  proof -
    from nf have "t \<in> set pend" using pend by simp
    from split_list_first [OF this] obtain ys zs where
      p: "pend = ys @ t # zs" and ny: "t \<notin> set ys" by blast
    show ?thesis
    proof (rule precedesI)
      show "events c' = (pre @ map Task_finished fin @ map Task_cancelled pend
          @ map Task_finished ys) @ Task_finished t
          # (map Task_finished zs @ [Session_closed, Unregistered cid])"
        using ev p by simp
      show "Task_finished t \<notin> set (pre @ map Task_finished fin @ map Task_cancelled pend
          @ map Task_finished ys)" using pre(1) fin [of t] nf ny by auto
      show "Task_cancelled t \<in> set (pre @ map Task_finished fin @ map Task_cancelled pend
          @ map Task_finished ys)" using p by auto
    qed
  qed
  have 4: "Task_cancelled t \<notin> set (events c')" if "finished env t" for t
    using ev pre(2) pend [of t] that by auto
  have 5: "precedes Session_closed (Unregistered cid) (events c')"
  proof (rule precedesI)
    show "events c' = (pre @ map Task_finished fin @ map Task_cancelled pend
          @ map Task_finished pend @ [Session_closed]) @ Unregistered cid # []"
      using ev by simp
    show "Unregistered cid \<notin> set (pre @ map Task_finished fin @ map Task_cancelled pend
          @ map Task_finished pend @ [Session_closed])" using pre(4) by auto
    show "Session_closed \<in> set (pre @ map Task_finished fin @ map Task_cancelled pend
          @ map Task_finished pend @ [Session_closed])" by simp
  qed
  from st 1 2 3 4 5 show ?thesis by blast
qed

theorem supervised_teardown_witness:
  "handle_client always_writes
      (process_audio_main always_writes
         \<lparr>connect_ok = True, activity = [turn_complete_frame], finished = (\<lambda>t. t = Recv_task)\<rparr>)
      7 7 fresh_conn
   = (\<lparr>active_clients = Map.empty,
       events = [Wrote ready_frame, Registered 7, Session_opened, Wrote (connected_frame MODEL),
         Task_created Ws_task, Task_created Send_task, Task_created Recv_task,
         Wrote turn_complete_frame, Task_finished Recv_task,
         Task_cancelled Ws_task, Task_cancelled Send_task,
         Task_finished Ws_task, Task_finished Send_task, Session_closed, Unregistered 7]\<rparr>,
      Done None)
   \<and> precedes (Task_finished Send_task) Session_closed
        [Wrote ready_frame, Registered 7, Session_opened, Wrote (connected_frame MODEL),
         Task_created Ws_task, Task_created Send_task, Task_created Recv_task,
         Wrote turn_complete_frame, Task_finished Recv_task,
         Task_cancelled Ws_task, Task_cancelled Send_task,
         Task_finished Ws_task, Task_finished Send_task, Session_closed, Unregistered 7]"
proof -
  have r: "handle_client always_writes
      (process_audio_main always_writes
         \<lparr>connect_ok = True, activity = [turn_complete_frame], finished = (\<lambda>t. t = Recv_task)\<rparr>)
      7 7 fresh_conn
   = (\<lparr>active_clients = Map.empty,
       events = [Wrote ready_frame, Registered 7, Session_opened, Wrote (connected_frame MODEL),
         Task_created Ws_task, Task_created Send_task, Task_created Recv_task,
         Wrote turn_complete_frame, Task_finished Recv_task,
         Task_cancelled Ws_task, Task_cancelled Send_task,
         Task_finished Ws_task, Task_finished Send_task, Session_closed, Unregistered 7]\<rparr>,
      Done None)"
    by (simp add: fresh_conn_def handle_client_def conn_send_def written_def
        process_audio_main_def register_def unregister_def emit_def always_writes_def)
  from supervised_teardown [OF _ _ _ _ r] r show ?thesis
    by (simp add: fresh_conn_def always_writes_def)
qed

text \<open>
  C9 fails as stated: in \<open>server.py\<close> the tasks run in a task group. When the client
  disconnects and \<open>handle_websocket_messages\<close> returns, nothing is cancelled: the other
  two tasks keep running, the session stays open and the client stays registered.
\<close>

theorem server_disconnect_counterexample:
  "handle_client always_writes
      (process_audio_server \<lparr>s_connect_ok = True, s_activity = [], exits = [(Ws_task, None)]\<rparr>)
      7 7 fresh_conn
   = (\<lparr>active_clients = [7 \<mapsto> 7],
       events = [Wrote ready_frame, Registered 7, Session_opened,
         Task_created Ws_task, Task_created Send_task, Task_created Recv_task,
         Task_finished Ws_task]\<rparr>, Blocked)"
  by (simp add: fresh_conn_def handle_client_def conn_send_def written_def
      process_audio_server_def register_def emit_def always_writes_def)

end
